theory Spec2Isabelle
  imports Complex_Main "HOL-Library.Char_ord" "HOL-Library.List_Lexorder"
begin

section \<open>Errors\<close>

text \<open>
  Every exception the modelled Python can raise is a value.  \<open>LibraryError\<close> stands for
  whatever an external collaborator (pykrige, scipy, numpy I/O, the uncoverml modules that
  are called but not defined in the files at hand) raises; its payload is the message.
\<close>

datatype error =
    ConfigException
  | KeyError string
  | AttributeError
  | ValueError
  | StopIteration
  | SystemExit int
  | LibraryError string

section \<open>krige/krige.py\<close>

datatype krige_class = OrdinaryKriging | UniversalKriging

text \<open>\<^verbatim>\<open>krige_methods = {'ordinary': OrdinaryKriging, 'universal': UniversalKriging}\<close>\<close>

definition krige_methods :: "(string \<times> krige_class) list" where
  "krige_methods = [(''ordinary'', OrdinaryKriging), (''universal'', UniversalKriging)]"

text \<open>
  The attributes of a \<open>Krige\<close> object.  \<open>model\<close> is \<open>None\<close> until \<open>fit\<close> has run.
\<close>

record ('a, 'k, 'm) Krige =
  Krige_args :: 'a
  Krige_kwargs :: 'k
  Krige_model :: "'m option"
  Krige_method :: string

text \<open>\<open>Krige.__init__\<close>: the method is checked against the keys of the registry first.\<close>

definition Krige_init :: "string \<Rightarrow> 'a \<Rightarrow> 'k \<Rightarrow> error + ('a, 'k, 'm) Krige" where
  "Krige_init meth as kws =
     (if meth \<notin> set (map fst krige_methods) then Inl ConfigException
      else Inr \<lparr>Krige_args = as, Krige_kwargs = kws, Krige_model = None, Krige_method = meth\<rparr>)"

text \<open>
  \<open>Krige.fit\<close>: \<open>krige_methods[self.method]\<close> raises \<open>KeyError\<close> on an unknown key; the
  class found is instantiated on the two coordinate columns of \<open>x\<close> and on \<open>y\<close>.  The
  constructors of pykrige are the parameter \<open>krige_new\<close>, which may fail with a message.
\<close>

definition Krige_fit ::
  "(krige_class \<Rightarrow> 'c list \<Rightarrow> 'c list \<Rightarrow> 'y \<Rightarrow> 'k \<Rightarrow> string + 'm) \<Rightarrow>
   ('a, 'k, 'm) Krige \<Rightarrow> ('c \<times> 'c) list \<Rightarrow> 'y \<Rightarrow> error + ('a, 'k, 'm) Krige" where
  "Krige_fit krige_new self x y =
     (case map_of krige_methods (Krige_method self) of
        None \<Rightarrow> Inl (KeyError (Krige_method self))
      | Some cls \<Rightarrow>
          (case krige_new cls (map fst x) (map snd x) y (Krige_kwargs self) of
             Inl msg \<Rightarrow> Inl (LibraryError msg)
           | Inr m \<Rightarrow> Inr (self\<lparr>Krige_model := Some m\<rparr>)))"

text \<open>
  \<open>Krige.predict_proba\<close>.  \<open>self.model.execute('points', x[:, 0], x[:, 1])\<close> is the
  parameter \<open>execute\<close> (on an untrained object \<open>self.model\<close> is \<open>None\<close> and the attribute
  access raises); \<open>np.sqrt\<close> and \<open>scipy.stats.norm.interval\<close> are the parameters
  \<open>np_sqrt\<close> and \<open>norm_interval\<close>, the latter called with \<open>loc=prediction\<close> and
  \<open>scale=np.sqrt(variance)\<close>.  The arrays are values of an arbitrary type \<open>'v\<close>.
\<close>

definition Krige_predict_proba ::
  "('m \<Rightarrow> 'c list \<Rightarrow> 'c list \<Rightarrow> string + ('v \<times> 'v)) \<Rightarrow> ('v \<Rightarrow> 'v) \<Rightarrow>
   ('i \<Rightarrow> 'v \<Rightarrow> 'v \<Rightarrow> string + ('v \<times> 'v)) \<Rightarrow>
   ('a, 'k, 'm) Krige \<Rightarrow> ('c \<times> 'c) list \<Rightarrow> 'i \<Rightarrow> error + ('v \<times> 'v \<times> 'v \<times> 'v)" where
  "Krige_predict_proba execute np_sqrt norm_interval self x interval =
     (case Krige_model self of
        None \<Rightarrow> Inl AttributeError
      | Some m \<Rightarrow>
          (case execute m (map fst x) (map snd x) of
             Inl msg \<Rightarrow> Inl (LibraryError msg)
           | Inr (prediction, variance) \<Rightarrow>
               (case norm_interval interval prediction (np_sqrt variance) of
                  Inl msg \<Rightarrow> Inl (LibraryError msg)
                | Inr (ql, qu) \<Rightarrow> Inr (prediction, variance, ql, qu))))"

text \<open>\<open>Krige.predict\<close>: \<open>self.predict_proba(x, interval=interval)[0]\<close>.\<close>

definition Krige_predict ::
  "('m \<Rightarrow> 'c list \<Rightarrow> 'c list \<Rightarrow> string + ('v \<times> 'v)) \<Rightarrow> ('v \<Rightarrow> 'v) \<Rightarrow>
   ('i \<Rightarrow> 'v \<Rightarrow> 'v \<Rightarrow> string + ('v \<times> 'v)) \<Rightarrow>
   ('a, 'k, 'm) Krige \<Rightarrow> ('c \<times> 'c) list \<Rightarrow> 'i \<Rightarrow> error + 'v" where
  "Krige_predict execute np_sqrt norm_interval self x interval =
     (case Krige_predict_proba execute np_sqrt norm_interval self x interval of
        Inl e \<Rightarrow> Inl e
      | Inr r \<Rightarrow> Inr (fst r))"

section \<open>Python and numpy primitives used by the scripts\<close>



definition dict_keys :: "('k \<times> 'v) list \<Rightarrow> 'k list" where
  "dict_keys d = map fst d"

definition dict_values :: "('k \<times> 'v) list \<Rightarrow> 'v list" where
  "dict_values d = map snd d"

text \<open>\<open>d[k]\<close> as an expression: \<open>KeyError\<close> when the key is missing.\<close>

definition dict_get :: "(string \<times> 'v) list \<Rightarrow> string \<Rightarrow> error + 'v" where
  "dict_get d k = (case map_of d k of None \<Rightarrow> Inl (KeyError k) | Some v \<Rightarrow> Inr v)"



definition path_join :: "string \<Rightarrow> string \<Rightarrow> string" where
  "path_join a b =
     (if b \<noteq> [] \<and> hd b = CHR ''/'' then b
      else if a = [] \<or> last a = CHR ''/'' then a @ b
      else a @ ''/'' @ b)"

text \<open>\<open>range(n)\<close> for an \<open>int\<close> \<open>n\<close>: empty when \<open>n \<le> 0\<close>.\<close>

definition range :: "int \<Rightarrow> int list" where
  "range n = map int [0..<nat n]"

text \<open>
  A two-dimensional (masked) numpy array of shape \<open>(nrows, ncols)\<close>: the list of its rows
  and the number of columns, which an array without rows still has.  A cell is a value of
  type \<open>'a\<close> (value and mask bit).  Every array satisfies \<open>ma_ok\<close>.
\<close>

record 'a marray =
  ncols :: nat
  rows :: "'a list list"


definition ma_ok :: "'a marray \<Rightarrow> bool" where
  "ma_ok a = (\<forall>r \<in> set (rows a). length r = ncols a)"




section \<open>scripts/learningpipeline.py\<close>

text \<open>The attributes of the pipeline configuration (a loaded Python module) that are read.\<close>

record 'g config =
  cfg_data_dir :: string
  cfg_target_file :: string
  cfg_target_var :: string
  cfg_folds :: nat
  cfg_crossval_seed :: nat
  cfg_export_targets :: bool
  cfg_output_dir :: string
  cfg_name :: string
  cfg_onehot :: bool
  cfg_patchsize :: nat
  cfg_impute :: bool
  cfg_transform :: string
  cfg_pca_frac :: real
  cfg_algdict :: "(string \<times> 'g) list"
  cfg_rank_features :: bool
  cfg_cross_validate :: bool



















text \<open>
  \<open>export_model\<close>: the path of the state file and the dict that is pickled into it.  The
  values of the dict are of different classes, hence the datatype.
\<close>

datatype ('m, 'i, 'c, 'k) pickled =
    PModel 'm
  | PImageSettings 'i
  | PComposeSettings 'c
  | PConfig 'k

definition export_model ::
  "'m \<Rightarrow> 'i \<Rightarrow> 'c \<Rightarrow> string \<Rightarrow> 'g config \<Rightarrow> string \<times> (string \<times> ('m, 'i, 'c, 'k) pickled) list" where
  "export_model trained image_settings compose_settings algorithm config =
     (let outfile_state = path_join (cfg_output_dir config)
                            (cfg_name config @ ''_'' @ algorithm @ ''.state'');
          state_dict = [(''model'', PModel trained),
                        (''image_settings'', PImageSettings image_settings),
                        (''compose_settings'', PComposeSettings compose_settings)]
      in (outfile_state, state_dict))"







section \<open>scripts/uncoverml.py: the predict command\<close>

text \<open>The attributes of the \<open>Config\<close> object that \<open>predict\<close> reads and writes.\<close>

record Config =
  Config_name :: string
  Config_algorithm :: string
  Config_output_dir :: string
  Config_n_subchunks :: int

text \<open>
  The trace of \<open>predict\<close>: the lines it logs, and the entry into and the return from
  every call of \<open>render_partition\<close>.
\<close>

datatype message =
    MemoryConstraint int
  | UsingMemoryAggressively
  | StartingPartition int
  | Finished

datatype predict_event = Info message | RenderCall int | RenderReturn int

text \<open>
  The loop \<open>for i in range(config.n_subchunks)\<close>.  \<open>ls.predict.render_partition\<close> is a
  parameter; it writes into \<open>image_out\<close>, which the model passes on from call to call.
\<close>

fun render_loop ::
  "('m \<Rightarrow> int \<Rightarrow> 'w \<Rightarrow> Config \<Rightarrow> string + 'w) \<Rightarrow> 'm \<Rightarrow> Config \<Rightarrow> int list \<Rightarrow> 'w \<Rightarrow>
   predict_event list \<times> (error + 'w)" where
  "render_loop render_partition trained config [] image_out = ([], Inr image_out)"
| "render_loop render_partition trained config (i # is) image_out =
     (case render_partition trained i image_out config of
        Inl msg \<Rightarrow> ([Info (StartingPartition (i + 1)), RenderCall i], Inl (LibraryError msg))
      | Inr image_out' \<Rightarrow>
          (case render_loop render_partition trained config is image_out' of
             (trace, r) \<Rightarrow>
               (Info (StartingPartition (i + 1)) # RenderCall i # RenderReturn i # trace, r)))"

text \<open>
  \<open>predict\<close>.  Parameters: \<open>load\<close> opens the file and unpickles it;
  \<open>get_image_spec\<close>, \<open>ImageWriter\<close>, \<open>get_predict_tags\<close> and \<open>render_partition\<close> are the
  collaborators of these names.  The two values read from the dict are used as a model
  and as a \<open>Config\<close>; a pickled object of another class has none of their attributes.
\<close>

definition predict ::
  "(string \<Rightarrow> string + (string \<times> ('m, 'i, 'c, Config) pickled) list) \<Rightarrow>
   ('m \<Rightarrow> Config \<Rightarrow> string + ('s \<times> 'b)) \<Rightarrow>
   ('s \<Rightarrow> 'b \<Rightarrow> string \<Rightarrow> int \<Rightarrow> string \<Rightarrow> 'u \<Rightarrow> string + 'w) \<Rightarrow>
   ('m \<Rightarrow> string + 'u) \<Rightarrow>
   ('m \<Rightarrow> int \<Rightarrow> 'w \<Rightarrow> Config \<Rightarrow> string + 'w) \<Rightarrow>
   string \<Rightarrow> int \<Rightarrow> predict_event list \<times> (error + 'w)" where
  "predict load get_image_spec ImageWriter get_predict_tags render_partition
       model_or_cluster_file partitions =
     (case load model_or_cluster_file of
        Inl msg \<Rightarrow> ([], Inl (LibraryError msg))
      | Inr state_dict \<Rightarrow>
     (case dict_get state_dict ''model'' of
        Inl e \<Rightarrow> ([], Inl e)
      | Inr model_obj \<Rightarrow>
     (case dict_get state_dict ''config'' of
        Inl e \<Rightarrow> ([], Inl e)
      | Inr config_obj \<Rightarrow>
     (case (model_obj, config_obj) of
        (PModel trained, PConfig config0) \<Rightarrow>
          (let config = config0\<lparr>Config_n_subchunks := partitions\<rparr>;
               trace1 = [Info (if Config_n_subchunks config > 1
                             then MemoryConstraint (Config_n_subchunks config)
                             else UsingMemoryAggressively)]
           in case get_image_spec trained config of
                Inl msg \<Rightarrow> (trace1, Inl (LibraryError msg))
              | Inr (image_shape, image_bbox) \<Rightarrow>
           (let outfile_tif = Config_name config @ ''_'' @ Config_algorithm config
            in case get_predict_tags trained of
                 Inl msg \<Rightarrow> (trace1, Inl (LibraryError msg))
               | Inr band_tags \<Rightarrow>
            (case ImageWriter image_shape image_bbox outfile_tif (Config_n_subchunks config)
                    (Config_output_dir config) band_tags of
               Inl msg \<Rightarrow> (trace1, Inl (LibraryError msg))
             | Inr image_out \<Rightarrow>
            (case render_loop render_partition trained config
                    (range (Config_n_subchunks config)) image_out of
               (trace2, Inl e) \<Rightarrow> (trace1 @ trace2, Inl e)
             | (trace2, Inr image_out') \<Rightarrow> (trace1 @ trace2 @ [Info Finished], Inr image_out')))))
      | _ \<Rightarrow> ([], Inl AttributeError)))))"

section \<open>Observations and example data\<close>


definition partition_events :: "int \<Rightarrow> predict_event list" where
  "partition_events i = [Info (StartingPartition (i + 1)), RenderCall i, RenderReturn i]"



text \<open>A pipeline configuration for the examples.\<close>

definition demo_config :: "unit config" where
  "demo_config =
     \<lparr>cfg_data_dir = ''data'', cfg_target_file = ''targets.shp'', cfg_target_var = ''Na'',
      cfg_folds = 5, cfg_crossval_seed = 1, cfg_export_targets = False,
      cfg_output_dir = ''out'', cfg_name = ''demo'', cfg_onehot = False, cfg_patchsize = 0,
      cfg_impute = True, cfg_transform = ''whiten'', cfg_pca_frac = 1 / 2,
      cfg_algdict = [(''svr'', ()), (''bayesreg'', ())],
      cfg_rank_features = True, cfg_cross_validate = True\<rparr>"



text \<open>
  The two library routines \<open>predict_proba\<close> calls, on arrays of floats.  A float is
  not-a-number, an infinity or a real number (rounding is left out).  \<open>np.sqrt\<close> is taken
  elementwise.  \<open>scipy.stats.norm.interval(alpha, loc, scale)\<close> rejects a level outside
  \<open>[0, 1]\<close> and returns \<open>ppf((1 - alpha) / 2)\<close> and \<open>ppf((1 + alpha) / 2)\<close>, where
  \<open>rv_continuous.ppf\<close> computes \<open>ndtri(q) * scale + loc\<close> elementwise only where
  \<open>scale > 0\<close> and \<open>loc\<close> is a number, and gives \<open>nan\<close> elsewhere.  \<open>ndtri\<close>, the
  quantile function of the standard normal distribution, is a parameter.  With an infinite
  \<open>loc\<close> or \<open>scale\<close> the model answers \<open>nan\<close>.
\<close>

datatype fl = NaN | NegInf | Fin real | PosInf

definition float_sqrt :: "fl list \<Rightarrow> fl list" where
  "float_sqrt a =
     map (\<lambda>v. case v of Fin r \<Rightarrow> (if r < 0 then NaN else Fin (sqrt r))
                | PosInf \<Rightarrow> PosInf | _ \<Rightarrow> NaN) a"

definition scipy_ppf :: "(real \<Rightarrow> real) \<Rightarrow> real \<Rightarrow> fl \<Rightarrow> fl \<Rightarrow> fl" where
  "scipy_ppf ndtri q loc scale =
     (case (loc, scale) of
        (Fin l, Fin s) \<Rightarrow>
          (if 0 < s then
             (if q = 0 then NegInf else if q = 1 then PosInf
              else if 0 < q \<and> q < 1 then Fin (ndtri q * s + l) else NaN)
           else NaN)
      | _ \<Rightarrow> NaN)"

definition scipy_norm_interval ::
  "(real \<Rightarrow> real) \<Rightarrow> real \<Rightarrow> fl list \<Rightarrow> fl list \<Rightarrow> string + (fl list \<times> fl list)" where
  "scipy_norm_interval ndtri alpha loc scale =
     (if alpha > 1 \<or> alpha < 0 then Inl ''alpha must be between 0 and 1 inclusive''
      else Inr (map2 (scipy_ppf ndtri ((1 - alpha) / 2)) loc scale,
                map2 (scipy_ppf ndtri ((1 + alpha) / 2)) loc scale))"

section \<open>Properties of the kriging wrapper\<close>

lemma krige_methods_keys: "set (map fst krige_methods) = {''ordinary'', ''universal''}"
  by (auto simp: krige_methods_def)

lemma krige_methods_lookup:
  "meth \<in> set (map fst krige_methods) \<Longrightarrow> \<exists>cls. map_of krige_methods meth = Some cls"
  by (auto simp: krige_methods_def)

text \<open>
  C5.  A method string outside \<open>{'ordinary', 'universal'}\<close> makes the constructor raise
  \<open>ConfigException\<close>; a method of the registry gives an untrained object holding that
  method; and on any object the constructor returned, \<open>fit\<close> finds the method in the
  registry: it never raises the \<open>KeyError\<close> of an unknown method, whatever the arguments
  and whatever the kriging class itself does.
\<close>

theorem Krige_init_checks_method:
  "(meth \<notin> {''ordinary'', ''universal''} \<longrightarrow>
      (Krige_init meth as kws :: error + ('a, 'k, 'm) Krige) = Inl ConfigException) \<and>
   (meth \<in> {''ordinary'', ''universal''} \<longrightarrow>
      (Krige_init meth as kws :: error + ('a, 'k, 'm) Krige) =
        Inr \<lparr>Krige_args = as, Krige_kwargs = kws, Krige_model = None, Krige_method = meth\<rparr>) \<and>
   (\<forall>self. (Krige_init meth as kws :: error + ('a, 'k, 'm) Krige) = Inr self \<longrightarrow>
      (\<forall>krige_new (x :: ('c \<times> 'c) list) (y :: 'y) s.
         Krige_fit krige_new self x y \<noteq> Inl (KeyError s)) \<and>
      (\<forall>krige_new x (y :: 'y). \<exists>cls. map_of krige_methods meth = Some cls \<and>
         Krige_fit krige_new self (x :: ('c \<times> 'c) list) y =
           (case krige_new cls (map fst x) (map snd x) y kws of
              Inl msg \<Rightarrow> Inl (LibraryError msg)
            | Inr m \<Rightarrow> Inr (self\<lparr>Krige_model := Some m\<rparr>))))"
proof (intro conjI impI allI)
  assume "meth \<notin> {''ordinary'', ''universal''}"
  then show "(Krige_init meth as kws :: error + ('a, 'k, 'm) Krige) = Inl ConfigException"
    unfolding Krige_init_def krige_methods_keys by simp
next
  assume "meth \<in> {''ordinary'', ''universal''}"
  then show "(Krige_init meth as kws :: error + ('a, 'k, 'm) Krige) =
      Inr \<lparr>Krige_args = as, Krige_kwargs = kws, Krige_model = None, Krige_method = meth\<rparr>"
    unfolding Krige_init_def krige_methods_keys by simp
next
  fix self :: "('a, 'k, 'm) Krige" and krige_new and x :: "('c \<times> 'c) list" and y :: 'y and s
  assume ok: "Krige_init meth as kws = Inr self"
  then have mem: "meth \<in> set (map fst krige_methods)" and m: "Krige_method self = meth"
    by (auto simp: Krige_init_def split: if_splits)
  from krige_methods_lookup [OF mem] obtain cls where "map_of krige_methods meth = Some cls" ..
  then show "Krige_fit krige_new self x y \<noteq> Inl (KeyError s)"
    by (simp add: Krige_fit_def m split: sum.splits)
next
  fix self :: "('a, 'k, 'm) Krige" and krige_new and x :: "('c \<times> 'c) list" and y :: 'y
  assume ok: "Krige_init meth as kws = Inr self"
  then have mem: "meth \<in> set (map fst krige_methods)" and m: "Krige_method self = meth"
    and k: "Krige_kwargs self = kws"
    by (auto simp: Krige_init_def split: if_splits)
  from krige_methods_lookup [OF mem] obtain cls where "map_of krige_methods meth = Some cls" ..
  then show "\<exists>cls. map_of krige_methods meth = Some cls \<and>
         Krige_fit krige_new self x y =
           (case krige_new cls (map fst x) (map snd x) y kws of
              Inl msg \<Rightarrow> Inl (LibraryError msg)
            | Inr m \<Rightarrow> Inr (self\<lparr>Krige_model := Some m\<rparr>))"
    by (simp add: Krige_fit_def m k)
qed

theorem Krige_init_checks_method_witness:
  "''cubic'' \<notin> {''ordinary'', ''universal''} \<and>
   (Krige_init ''cubic'' () () :: error + (unit, unit, nat) Krige) = Inl ConfigException \<and>
   ''ordinary'' \<in> {''ordinary'', ''universal''} \<and>
   (Krige_init ''ordinary'' () () :: error + (unit, unit, nat) Krige) =
      Inr \<lparr>Krige_args = (), Krige_kwargs = (), Krige_model = None,
           Krige_method = ''ordinary''\<rparr> \<and>
   Krige_fit (\<lambda>cls xs ys y kw. Inr (length xs))
      \<lparr>Krige_args = (), Krige_kwargs = (), Krige_model = None, Krige_method = ''ordinary''\<rparr>
      [(1::int, 2)] ()
     \<noteq> Inl (KeyError ''ordinary'')"
proof -
  have a: "''cubic'' \<notin> {''ordinary'', ''universal''}" by simp
  have b: "''ordinary'' \<in> {''ordinary'', ''universal''}" by simp
  note t1 = Krige_init_checks_method
    [of "''cubic''" "()" "()", where ?'m = nat and ?'c = int and ?'y = unit]
  note t2 = Krige_init_checks_method
    [of "''ordinary''" "()" "()", where ?'m = nat and ?'c = int and ?'y = unit]
  from t1 a have c:
    "(Krige_init ''cubic'' () () :: error + (unit, unit, nat) Krige) = Inl ConfigException"
    by blast
  from t2 b have d:
    "(Krige_init ''ordinary'' () () :: error + (unit, unit, nat) Krige) =
      Inr \<lparr>Krige_args = (), Krige_kwargs = (), Krige_model = None,
           Krige_method = ''ordinary''\<rparr>"
    by blast
  from t2 d have e:
    "Krige_fit (\<lambda>cls xs ys y kw. Inr (length xs))
      \<lparr>Krige_args = (), Krige_kwargs = (), Krige_model = None, Krige_method = ''ordinary''\<rparr>
      [(1::int, 2)] ()
     \<noteq> Inl (KeyError ''ordinary'')"
    by blast
  from a b c d e show ?thesis by blast
qed

lemma Krige_predict_proba_Inr:
  "Krige_predict_proba execute np_sqrt norm_interval self x interval = Inr (p, v, ql, qu) \<longleftrightarrow>
   (\<exists>m. Krige_model self = Some m \<and> execute m (map fst x) (map snd x) = Inr (p, v) \<and>
        norm_interval interval p (np_sqrt v) = Inr (ql, qu))"
  unfolding Krige_predict_proba_def
  by (auto split: option.splits sum.splits prod.splits)

lemma Krige_predict_Inr:
  "Krige_predict execute np_sqrt norm_interval self x interval = Inr r \<longleftrightarrow>
   (\<exists>v ql qu. Krige_predict_proba execute np_sqrt norm_interval self x interval =
      Inr (r, v, ql, qu))"
  unfolding Krige_predict_def
  by (cases "Krige_predict_proba execute np_sqrt norm_interval self x interval") auto

text \<open>
  C9.  \<open>predict\<close> returns the first component of what \<open>predict_proba\<close> returns for the same
  arguments (and raises what it raises); two calls that differ only in \<open>interval\<close> and
  both return, return the same value; on a fitted object whose model returns the pair
  \<open>(prediction, variance)\<close>, that value is \<open>prediction\<close>, and \<open>predict\<close> returns it whenever
  the interval routine returns.
\<close>

theorem Krige_predict_first_component:
  "Krige_predict execute np_sqrt norm_interval self x interval =
     (case Krige_predict_proba execute np_sqrt norm_interval self x interval of
        Inl e \<Rightarrow> Inl e
      | Inr (est, v, ql, qu) \<Rightarrow> Inr est) \<and>
   (\<forall>interval' r r'.
      Krige_predict execute np_sqrt norm_interval self x interval = Inr r \<and>
      Krige_predict execute np_sqrt norm_interval self x interval' = Inr r' \<longrightarrow> r = r') \<and>
   (\<forall>m prediction variance.
      Krige_model self = Some m \<and>
      execute m (map fst x) (map snd x) = Inr (prediction, variance) \<longrightarrow>
        (\<forall>r. Krige_predict execute np_sqrt norm_interval self x interval = Inr r \<longrightarrow>
           r = prediction) \<and>
        (\<forall>q. norm_interval interval prediction (np_sqrt variance) = Inr q \<longrightarrow>
           Krige_predict execute np_sqrt norm_interval self x interval = Inr prediction))"
proof (intro conjI allI impI)
  show "Krige_predict execute np_sqrt norm_interval self x interval =
     (case Krige_predict_proba execute np_sqrt norm_interval self x interval of
        Inl e \<Rightarrow> Inl e
      | Inr (est, v, ql, qu) \<Rightarrow> Inr est)"
    by (simp add: Krige_predict_def split: sum.splits prod.splits)
next
  fix interval' r r'
  assume a: "Krige_predict execute np_sqrt norm_interval self x interval = Inr r \<and>
      Krige_predict execute np_sqrt norm_interval self x interval' = Inr r'"
  from a obtain v m where
    1: "Krige_model self = Some m" "execute m (map fst x) (map snd x) = Inr (r, v)"
    unfolding Krige_predict_Inr Krige_predict_proba_Inr by blast
  from a obtain v' m' where
    2: "Krige_model self = Some m'" "execute m' (map fst x) (map snd x) = Inr (r', v')"
    unfolding Krige_predict_Inr Krige_predict_proba_Inr by blast
  from 1 2 show "r = r'" by simp
next
  fix m prediction variance r
  assume a: "Krige_model self = Some m \<and>
      execute m (map fst x) (map snd x) = Inr (prediction, variance)"
    and b: "Krige_predict execute np_sqrt norm_interval self x interval = Inr r"
  from b obtain v m' where
    1: "Krige_model self = Some m'" "execute m' (map fst x) (map snd x) = Inr (r, v)"
    unfolding Krige_predict_Inr Krige_predict_proba_Inr by blast
  from a 1 show "r = prediction" by simp
next
  fix m prediction variance q
  assume a: "Krige_model self = Some m \<and>
      execute m (map fst x) (map snd x) = Inr (prediction, variance)"
    and b: "norm_interval interval prediction (np_sqrt variance) = Inr q"
  obtain ql qu where q: "q = (ql, qu)" by (cases q)
  from a b q have "Krige_predict_proba execute np_sqrt norm_interval self x interval =
      Inr (prediction, variance, ql, qu)"
    unfolding Krige_predict_proba_Inr by blast
  then show "Krige_predict execute np_sqrt norm_interval self x interval = Inr prediction"
    unfolding Krige_predict_Inr by blast
qed

theorem Krige_predict_first_component_witness:
  "Krige_predict (\<lambda>m xs ys. Inr (xs, ys)) (map sqrt)
      (\<lambda>i loc scale. Inr (map2 (\<lambda>l s. l - i * s) loc scale, map2 (\<lambda>l s. l + i * s) loc scale))
      \<lparr>Krige_args = (), Krige_kwargs = (), Krige_model = Some (), Krige_method = ''ordinary''\<rparr>
      [(3, 1)] (1 / 2) = Inr [3 :: real] \<and>
   Krige_predict_proba (\<lambda>m xs ys. Inr (xs, ys)) (map sqrt)
      (\<lambda>i loc scale. Inr (map2 (\<lambda>l s. l - i * s) loc scale, map2 (\<lambda>l s. l + i * s) loc scale))
      \<lparr>Krige_args = (), Krige_kwargs = (), Krige_model = Some (), Krige_method = ''ordinary''\<rparr>
      [(3, 1)] (1 / 2) = Inr ([3 :: real], [1], [5 / 2], [7 / 2])"
proof -
  let ?ex = "\<lambda>(m :: unit) (xs :: real list) (ys :: real list). Inr (xs, ys) :: string + _"
  let ?ni = "\<lambda>(i :: real) loc scale.
      Inr (map2 (\<lambda>l s. l - i * s) loc scale, map2 (\<lambda>l s. l + i * s) loc scale) :: string + _"
  let ?self = "\<lparr>Krige_args = (), Krige_kwargs = (), Krige_model = Some (),
                 Krige_method = ''ordinary''\<rparr>"
  note t = Krige_predict_first_component [of ?ex "map sqrt" ?ni ?self "[(3, 1)]" "1 / 2"]
  have fitted: "Krige_model ?self = Some () \<and>
      ?ex () (map fst [(3 :: real, 1 :: real)]) (map snd [(3 :: real, 1 :: real)]) = Inr ([3], [1])"
    by simp
  have returns: "?ni (1 / 2) [3] (map sqrt [1]) = Inr ([5 / 2], [7 / 2])"
    by simp
  note t3 = t [THEN conjunct2, THEN conjunct2, THEN spec, THEN spec, THEN spec, THEN mp,
               OF fitted, THEN conjunct2, THEN spec, THEN mp, OF returns]
  have 2: "Krige_predict_proba ?ex (map sqrt) ?ni ?self [(3, 1)] (1 / 2) =
      Inr ([3], [1], [5 / 2], [7 / 2])"
    by (simp add: Krige_predict_proba_def)
  from t3 2 show ?thesis by (rule conjI)
qed

section \<open>Properties of the predict command\<close>





lemma Finished_notin_partitions: "Info Finished \<notin> set (concat (map partition_events js))"
  by (induction js) (simp_all add: partition_events_def)


lemma predict_cases:
  assumes "predict load gis iw gpt rp file S = (trace, r)"
  defines "m0 \<equiv> (if S > 1 then MemoryConstraint S else UsingMemoryAggressively)"
  shows "(\<exists>e. r = Inl e \<and> (trace = [] \<or> trace = [Info m0]) \<and>
            ((\<exists>msg. e = LibraryError msg) \<or> e = AttributeError \<or>
             (\<exists>state_dict k. load file = Inr state_dict \<and> e = KeyError k \<and>
                (k = ''model'' \<or> k = ''config'') \<and> map_of state_dict k = None))) \<or>
         (\<exists>tm cfg img0 t2 r2. render_loop rp tm cfg (range S) img0 = (t2, r2) \<and>
            ((\<exists>e. r2 = Inl e \<and> trace = Info m0 # t2 \<and> r = Inl e) \<or>
             (\<exists>img'. r2 = Inr img' \<and> trace = Info m0 # t2 @ [Info Finished] \<and> r = Inr img')))"
proof (cases "load file")
  case (Inl msg)
  with assms(1) show ?thesis by (auto simp: predict_def)
next
  case sd: (Inr state_dict)
  show ?thesis
  proof (cases "dict_get state_dict ''model''")
    case (Inl e)
    then have "e = KeyError ''model'' \<and> map_of state_dict ''model'' = None"
      by (auto simp: dict_get_def split: option.splits)
    with Inl sd assms(1) show ?thesis by (auto simp: predict_def)
  next
    case mo: (Inr model_obj)
    show ?thesis
    proof (cases "dict_get state_dict ''config''")
      case (Inl e)
      then have "e = KeyError ''config'' \<and> map_of state_dict ''config'' = None"
        by (auto simp: dict_get_def split: option.splits)
      with Inl sd mo assms(1) show ?thesis by (auto simp: predict_def)
    next
      case co: (Inr config_obj)
      show ?thesis
      proof (cases "\<exists>tm c0. model_obj = PModel tm \<and> config_obj = PConfig c0")
        case False
        with sd mo co assms(1) have "trace = [] \<and> r = Inl AttributeError"
          by (cases model_obj; cases config_obj) (auto simp: predict_def)
        then show ?thesis by blast
      next
        case True
        then obtain tm c0 where o: "model_obj = PModel tm" "config_obj = PConfig c0" by blast
        let ?cfg = "c0\<lparr>Config_n_subchunks := S\<rparr>"
        note u = sd mo co o
        show ?thesis
        proof (cases "gis tm ?cfg")
          case (Inl msg)
          with u assms(1) show ?thesis by (auto simp: predict_def Let_def m0_def)
        next
          case g: (Inr spec)
          obtain sh bb where spec: "spec = (sh, bb)" by (cases spec)
          show ?thesis
          proof (cases "gpt tm")
            case (Inl msg)
            with u g spec assms(1) show ?thesis by (auto simp: predict_def Let_def m0_def)
          next
            case t: (Inr tags)
            show ?thesis
            proof (cases "iw sh bb (Config_name ?cfg @ ''_'' @ Config_algorithm ?cfg) S
                    (Config_output_dir ?cfg) tags")
              case (Inl msg)
              with u g spec t assms(1) show ?thesis by (auto simp: predict_def Let_def m0_def)
            next
              case w: (Inr img0)
              obtain t2 r2 where l: "render_loop rp tm ?cfg (range S) img0 = (t2, r2)"
                by (cases "render_loop rp tm ?cfg (range S) img0")
              from u g spec t w l assms(1) have
                "(\<exists>e. r2 = Inl e \<and> trace = Info m0 # t2 \<and> r = Inl e) \<or>
                 (\<exists>img'. r2 = Inr img' \<and> trace = Info m0 # t2 @ [Info Finished] \<and> r = Inr img')"
                by (cases r2) (auto simp: predict_def Let_def m0_def)
              with l show ?thesis by blast
            qed
          qed
        qed
      qed
    qed
  qed
qed





lemma render_loop_error:
  "render_loop rp m c js img = (tr, Inl e) \<Longrightarrow> \<exists>msg. e = LibraryError msg"
proof (induction js arbitrary: img tr)
  case Nil
  then show ?case by simp
next
  case (Cons i js)
  then show ?case
    by (auto split: sum.splits prod.splits)
qed

lemma predict_KeyError:
  assumes "predict load gis iw gpt rp file S = (trace, Inl (KeyError k))"
  shows "\<exists>state_dict. load file = Inr state_dict \<and> (k = ''model'' \<or> k = ''config'') \<and>
           map_of state_dict k = None"
  using predict_cases [OF assms] by (auto dest: render_loop_error)

lemma map_of_None_keys: "map_of d k = None \<longleftrightarrow> k \<notin> set (dict_keys d)"
  by (simp add: dict_keys_def map_of_eq_None_iff)

text \<open>
  C4 (as amended).  The dict \<open>export_model\<close> pickles holds exactly the keys \<open>model\<close>,
  \<open>image_settings\<close> and \<open>compose_settings\<close>, bound to the trained model, the settings
  of the images and the compose settings it was given.  \<open>predict\<close> reads the keys
  \<open>model\<close> and \<open>config\<close>: a \<open>KeyError\<close> it raises names one of these two, missing from
  the file it loaded; and on a file written by \<open>export_model\<close> it raises
  \<open>KeyError('config')\<close> before it logs or renders anything.
\<close>

theorem export_model_bundle_keys:
  fixes load :: "string \<Rightarrow> string + (string \<times> ('m, 'i, 'c, Config) pickled) list"
  shows
  "dict_keys (snd (export_model trained image_settings compose_settings algorithm config
                    :: string \<times> (string \<times> ('m, 'i, 'c, Config) pickled) list)) =
     [''model'', ''image_settings'', ''compose_settings''] \<and>
   dict_values (snd (export_model trained image_settings compose_settings algorithm config
                    :: string \<times> (string \<times> ('m, 'i, 'c, Config) pickled) list)) =
     [PModel trained, PImageSettings image_settings, PComposeSettings compose_settings] \<and>
   (load model_or_cluster_file =
      Inr (snd (export_model trained image_settings compose_settings algorithm config)) \<longrightarrow>
    predict load get_image_spec ImageWriter get_predict_tags render_partition
      model_or_cluster_file partitions = ([], Inl (KeyError ''config''))) \<and>
   (\<forall>state_dict trace k.
      load model_or_cluster_file = Inr state_dict \<and>
      predict load get_image_spec ImageWriter get_predict_tags render_partition
        model_or_cluster_file partitions = (trace, Inl (KeyError k)) \<longrightarrow>
      (k = ''model'' \<or> k = ''config'') \<and> k \<notin> set (dict_keys state_dict))"
proof (intro conjI impI allI)
  show "dict_keys (snd (export_model trained image_settings compose_settings algorithm config
                    :: string \<times> (string \<times> ('m, 'i, 'c, Config) pickled) list)) =
     [''model'', ''image_settings'', ''compose_settings'']"
    by (simp add: export_model_def dict_keys_def Let_def)
  show "dict_values (snd (export_model trained image_settings compose_settings algorithm config
                    :: string \<times> (string \<times> ('m, 'i, 'c, Config) pickled) list)) =
     [PModel trained, PImageSettings image_settings, PComposeSettings compose_settings]"
    by (simp add: export_model_def dict_values_def Let_def)
next
  assume "load model_or_cluster_file =
      Inr (snd (export_model trained image_settings compose_settings algorithm config))"
  then show "predict load get_image_spec ImageWriter get_predict_tags render_partition
      model_or_cluster_file partitions = ([], Inl (KeyError ''config''))"
    by (simp add: predict_def export_model_def dict_get_def Let_def)
next
  fix state_dict trace k
  assume a: "load model_or_cluster_file = Inr state_dict \<and>
      predict load get_image_spec ImageWriter get_predict_tags render_partition
        model_or_cluster_file partitions = (trace, Inl (KeyError k))"
  from predict_KeyError [of load _ _ _ _ model_or_cluster_file partitions trace k] a
  have "(k = ''model'' \<or> k = ''config'') \<and> k \<notin> set (dict_keys state_dict)"
    by (auto simp: map_of_None_keys)
  then show "k = ''model'' \<or> k = ''config''" and "k \<notin> set (dict_keys state_dict)"
    by blast+
qed

theorem export_model_bundle_keys_witness:
  "predict
     (\<lambda>f. if f = ''out/demo_svr.state''
          then Inr (snd (export_model (7 :: nat) [(''dem.tif'', ())] () ''svr'' demo_config
                        :: string \<times> (string \<times> (nat, (string \<times> unit) list, unit, Config) pickled) list))
          else Inl ''No such file'')
     (\<lambda>m c. Inr ((), ())) (\<lambda>sh bb out n dir tags. Inr []) (\<lambda>m. Inr ())
     (\<lambda>m i image_out c. Inr (image_out @ [i])) ''out/demo_svr.state'' 1 =
   ([], Inl (KeyError ''config'')) \<and>
   (''config'' = ''model'' \<or> ''config'' = ''config'') \<and>
   ''config'' \<notin> set (dict_keys (snd (export_model (7 :: nat) [(''dem.tif'', ())] () ''svr''
                          demo_config
                        :: string \<times> (string \<times> (nat, (string \<times> unit) list, unit, Config) pickled) list)))"
  (is "?run \<and> ?which \<and> ?missing")
proof -
  let ?load = "\<lambda>f. if f = ''out/demo_svr.state''
          then Inr (snd (export_model (7 :: nat) [(''dem.tif'', ())] () ''svr'' demo_config
                        :: string \<times> (string \<times> (nat, (string \<times> unit) list, unit, Config) pickled) list))
          else Inl ''No such file''"
  have loaded: "?load ''out/demo_svr.state'' =
      Inr (snd (export_model (7 :: nat) [(''dem.tif'', ())] () ''svr'' demo_config))"
    by (simp only: refl if_True)
  note t = export_model_bundle_keys
    [where load = ?load and model_or_cluster_file = "''out/demo_svr.state''" and trained = 7
       and image_settings = "[(''dem.tif'', ())]" and compose_settings = "()"
       and algorithm = "''svr''" and config = demo_config
       and get_image_spec = "\<lambda>m c. Inr ((), ())"
       and ImageWriter = "\<lambda>sh bb out n dir tags. Inr []"
       and get_predict_tags = "\<lambda>m. Inr ()"
       and render_partition = "\<lambda>m i image_out c. Inr (image_out @ [i])"
       and partitions = 1]
  have run: ?run
    using t [THEN conjunct2, THEN conjunct2, THEN conjunct1, THEN mp, OF loaded] .
  have both: "?which \<and> ?missing"
    using t [THEN conjunct2, THEN conjunct2, THEN conjunct2, THEN spec, THEN spec, THEN spec,
             THEN mp, OF conjI, OF loaded run] .
  from run both show ?thesis by (rule conjI)
qed

text \<open>
  C4 as stated fails: \<open>predict\<close> loads the key \<open>config\<close>, which is not among the keys
  \<open>export_model\<close> stores.
\<close>

theorem predict_reads_config_counterexample:
  "predict
     (\<lambda>f. if f = ''out/demo_svr.state''
          then Inr (snd (export_model (7 :: nat) [(''dem.tif'', ())] () ''svr'' demo_config
                        :: string \<times> (string \<times> (nat, (string \<times> unit) list, unit, Config) pickled) list))
          else Inl ''No such file'')
     (\<lambda>m c. Inr ((), ())) (\<lambda>sh bb out n dir tags. Inr []) (\<lambda>m. Inr ())
     (\<lambda>m i image_out c. Inr (image_out @ [i])) ''out/demo_svr.state'' 1 =
   ([], Inl (KeyError ''config'')) \<and>
   export_model (7 :: nat) [(''dem.tif'', ())] () ''svr'' demo_config =
     (''out/demo_svr.state'',
      [(''model'', PModel 7 :: (nat, (string \<times> unit) list, unit, Config) pickled),
       (''image_settings'', PImageSettings [(''dem.tif'', ())]),
       (''compose_settings'', PComposeSettings ())])"
  by (simp add: predict_def export_model_def dict_get_def demo_config_def path_join_def Let_def)

section \<open>Properties of the uncertainty bounds\<close>

lemma Krige_predict_proba_fitted:
  "Krige_model self = Some m \<Longrightarrow>
   execute m (map fst x) (map snd x) = Inr (prediction, variance) \<Longrightarrow>
   Krige_predict_proba execute np_sqrt norm_interval self x interval =
     (case norm_interval interval prediction (np_sqrt variance) of
        Inl msg \<Rightarrow> Inl (LibraryError msg)
      | Inr (ql, qu) \<Rightarrow> Inr (prediction, variance, ql, qu))"
  by (simp add: Krige_predict_proba_def)

lemma scipy_ppf_zero_scale:
  "map2 (scipy_ppf ndtri q) estimate (float_sqrt (replicate (length estimate) (Fin 0))) =
   replicate (length estimate) NaN"
proof (induction estimate)
  case Nil
  then show ?case by (simp add: float_sqrt_def)
next
  case (Cons e es)
  then show ?case
    by (cases e) (simp_all add: float_sqrt_def scipy_ppf_def)
qed

lemma scipy_ppf_positive_scale:
  "length es = length vs \<Longrightarrow> \<forall>v \<in> set vs. 0 < v \<Longrightarrow> 0 < q \<Longrightarrow> q < 1 \<Longrightarrow>
   map2 (scipy_ppf ndtri q) (map Fin es) (float_sqrt (map Fin vs)) =
   map2 (\<lambda>e v. Fin (ndtri q * sqrt v + e)) es vs"
proof (induction es vs rule: list_induct2)
  case Nil
  then show ?case by (simp add: float_sqrt_def)
next
  case (Cons e es v vs)
  then have "map2 (scipy_ppf ndtri q) (map Fin es) (float_sqrt (map Fin vs)) =
     map2 (\<lambda>e v. Fin (ndtri q * sqrt v + e)) es vs" by simp
  moreover from Cons.prems have "0 < v" "0 < q" "q < 1" by simp_all
  ultimately show ?case
    by (simp add: float_sqrt_def scipy_ppf_def)
qed

text \<open>
  C6 (as amended).  On a fitted object whose model returns \<open>(prediction, variance)\<close>,
  \<open>predict_proba\<close> returns \<open>(prediction, variance, ql, qu)\<close> where \<open>(ql, qu)\<close> is what
  \<open>norm.interval\<close> returns for the requested level with \<open>loc = prediction\<close> and
  \<open>scale = sqrt(variance)\<close>, and raises when that raises.  With scipy's routine, a level
  strictly between 0 and 1 and positive variances, the bounds are the two quantiles
  \<open>prediction + ndtri((1 \<mp> level) / 2) * sqrt(variance)\<close> of that normal distribution.
  The code has no case of its own for a variance of 0: there the scale is 0 and both
  bounds are \<open>nan\<close>, at any level in \<open>[0, 1]\<close>.
\<close>

theorem Krige_predict_proba_bounds:
  "(Krige_model self = Some m \<and>
    execute m (map fst x) (map snd x) = Inr (prediction, variance) \<longrightarrow>
      Krige_predict_proba execute np_sqrt norm_interval self x interval =
        (case norm_interval interval prediction (np_sqrt variance) of
           Inl msg \<Rightarrow> Inl (LibraryError msg)
         | Inr (ql, qu) \<Rightarrow> Inr (prediction, variance, ql, qu))) \<and>
   (Krige_model self' = Some m' \<and>
    execute' m' (map fst x') (map snd x') = Inr (map Fin es, map Fin vs) \<and>
    length es = length vs \<and> (\<forall>v \<in> set vs. 0 < v) \<and> 0 < level \<and> level < 1 \<longrightarrow>
      Krige_predict_proba execute' float_sqrt (scipy_norm_interval ndtri) self' x' level =
        Inr (map Fin es, map Fin vs,
             map2 (\<lambda>e v. Fin (ndtri ((1 - level) / 2) * sqrt v + e)) es vs,
             map2 (\<lambda>e v. Fin (ndtri ((1 + level) / 2) * sqrt v + e)) es vs)) \<and>
   (Krige_model self' = Some m' \<and>
    execute' m' (map fst x') (map snd x') =
      Inr (estimate, replicate (length estimate) (Fin 0)) \<and>
    0 \<le> level \<and> level \<le> 1 \<longrightarrow>
      Krige_predict_proba execute' float_sqrt (scipy_norm_interval ndtri) self' x' level =
        Inr (estimate, replicate (length estimate) (Fin 0),
             replicate (length estimate) NaN, replicate (length estimate) NaN))"
proof (intro conjI impI)
  assume "Krige_model self = Some m \<and>
    execute m (map fst x) (map snd x) = Inr (prediction, variance)"
  then show "Krige_predict_proba execute np_sqrt norm_interval self x interval =
        (case norm_interval interval prediction (np_sqrt variance) of
           Inl msg \<Rightarrow> Inl (LibraryError msg)
         | Inr (ql, qu) \<Rightarrow> Inr (prediction, variance, ql, qu))"
    by (simp add: Krige_predict_proba_fitted)
next
  assume a: "Krige_model self' = Some m' \<and>
    execute' m' (map fst x') (map snd x') = Inr (map Fin es, map Fin vs) \<and>
    length es = length vs \<and> (\<forall>v \<in> set vs. 0 < v) \<and> 0 < level \<and> level < 1"
  then have q: "0 < (1 - level) / 2" "(1 - level) / 2 < 1" "0 < (1 + level) / 2"
    "(1 + level) / 2 < 1" by simp_all
  from a have l: "\<not> (level > 1 \<or> level < 0)" by simp
  from a have "Krige_predict_proba execute' float_sqrt (scipy_norm_interval ndtri) self' x' level =
      (case scipy_norm_interval ndtri level (map Fin es) (float_sqrt (map Fin vs)) of
           Inl msg \<Rightarrow> Inl (LibraryError msg)
         | Inr (ql, qu) \<Rightarrow> Inr (map Fin es, map Fin vs, ql, qu))"
    by (simp add: Krige_predict_proba_fitted)
  also have "\<dots> = Inr (map Fin es, map Fin vs,
        map2 (scipy_ppf ndtri ((1 - level) / 2)) (map Fin es) (float_sqrt (map Fin vs)),
        map2 (scipy_ppf ndtri ((1 + level) / 2)) (map Fin es) (float_sqrt (map Fin vs)))"
    using l by (simp add: scipy_norm_interval_def)
  also have "\<dots> = Inr (map Fin es, map Fin vs,
             map2 (\<lambda>e v. Fin (ndtri ((1 - level) / 2) * sqrt v + e)) es vs,
             map2 (\<lambda>e v. Fin (ndtri ((1 + level) / 2) * sqrt v + e)) es vs)"
  proof -
    from a have len: "length es = length vs" and pos: "\<forall>v \<in> set vs. 0 < v" by simp_all
    note lo = scipy_ppf_positive_scale [OF len pos q(1) q(2), of ndtri]
    note hi = scipy_ppf_positive_scale [OF len pos q(3) q(4), of ndtri]
    show ?thesis by (simp only: lo hi)
  qed
  finally show "Krige_predict_proba execute' float_sqrt (scipy_norm_interval ndtri) self' x' level =
        Inr (map Fin es, map Fin vs,
             map2 (\<lambda>e v. Fin (ndtri ((1 - level) / 2) * sqrt v + e)) es vs,
             map2 (\<lambda>e v. Fin (ndtri ((1 + level) / 2) * sqrt v + e)) es vs)" .
next
  assume a: "Krige_model self' = Some m' \<and>
    execute' m' (map fst x') (map snd x') =
      Inr (estimate, replicate (length estimate) (Fin 0)) \<and>
    0 \<le> level \<and> level \<le> 1"
  then have l: "\<not> (level > 1 \<or> level < 0)" by simp
  from a have "Krige_predict_proba execute' float_sqrt (scipy_norm_interval ndtri) self' x' level =
      (case scipy_norm_interval ndtri level estimate
              (float_sqrt (replicate (length estimate) (Fin 0))) of
           Inl msg \<Rightarrow> Inl (LibraryError msg)
         | Inr (ql, qu) \<Rightarrow> Inr (estimate, replicate (length estimate) (Fin 0), ql, qu))"
    by (simp add: Krige_predict_proba_fitted)
  also have "\<dots> = Inr (estimate, replicate (length estimate) (Fin 0),
             replicate (length estimate) NaN, replicate (length estimate) NaN)"
    using l by (simp add: scipy_norm_interval_def scipy_ppf_zero_scale)
  finally show "Krige_predict_proba execute' float_sqrt (scipy_norm_interval ndtri) self' x' level =
        Inr (estimate, replicate (length estimate) (Fin 0),
             replicate (length estimate) NaN, replicate (length estimate) NaN)" .
qed

theorem Krige_predict_proba_bounds_witness:
  "Krige_predict_proba (\<lambda>m xs ys. Inr ([Fin 5], [Fin 1])) float_sqrt
      (scipy_norm_interval (\<lambda>q. if q < 1 / 2 then - (196 / 100) else 196 / 100))
      \<lparr>Krige_args = (), Krige_kwargs = (), Krige_model = Some (), Krige_method = ''ordinary''\<rparr>
      [(0 :: real, 0)] (95 / 100) =
     Inr ([Fin 5], [Fin 1], [Fin (76 / 25)], [Fin (174 / 25)]) \<and>
   Krige_predict_proba (\<lambda>m xs ys. Inr ([Fin 5], [Fin 0])) float_sqrt
      (scipy_norm_interval (\<lambda>q. if q < 1 / 2 then - (196 / 100) else 196 / 100))
      \<lparr>Krige_args = (), Krige_kwargs = (), Krige_model = Some (), Krige_method = ''ordinary''\<rparr>
      [(0 :: real, 0)] (95 / 100) =
     Inr ([Fin 5], [Fin 0], [NaN], [NaN])"
  (is "?pos \<and> ?zero")
proof -
  let ?self = "\<lparr>Krige_args = (), Krige_kwargs = (), Krige_model = Some (),
                 Krige_method = ''ordinary''\<rparr>"
  let ?z = "\<lambda>q :: real. if q < 1 / 2 then - (196 / 100) else 196 / 100 :: real"
  let ?ex1 = "\<lambda>(m :: unit) (xs :: real list) (ys :: real list).
                Inr ([Fin 5], [Fin 1]) :: string + fl list \<times> fl list"
  let ?ex0 = "\<lambda>(m :: unit) (xs :: real list) (ys :: real list).
                Inr ([Fin 5], [Fin 0]) :: string + fl list \<times> fl list"
  have h1: "Krige_model ?self = Some () \<and>
    ?ex1 () (map fst [(0 :: real, 0 :: real)]) (map snd [(0 :: real, 0 :: real)]) =
      Inr (map Fin [5], map Fin [1]) \<and>
    length [5 :: real] = length [1 :: real] \<and> (\<forall>v \<in> set [1 :: real]. 0 < v) \<and>
    (0 :: real) < 95 / 100 \<and> (95 / 100 :: real) < 1"
    by simp
  have h0: "Krige_model ?self = Some () \<and>
    ?ex0 () (map fst [(0 :: real, 0 :: real)]) (map snd [(0 :: real, 0 :: real)]) =
      Inr ([Fin 5], replicate (length [Fin 5]) (Fin 0)) \<and>
    (0 :: real) \<le> 95 / 100 \<and> (95 / 100 :: real) \<le> 1"
    by simp
  note t1 = Krige_predict_proba_bounds
    [where self' = ?self and m' = "()" and execute' = ?ex1 and x' = "[(0, 0)]"
       and es = "[5]" and vs = "[1]" and level = "95 / 100" and ndtri = ?z,
     THEN conjunct2, THEN conjunct1, THEN mp, OF h1]
  note t0 = Krige_predict_proba_bounds
    [where self' = ?self and m' = "()" and execute' = ?ex0 and x' = "[(0, 0)]"
       and estimate = "[Fin 5]" and level = "95 / 100" and ndtri = ?z,
     THEN conjunct2, THEN conjunct2, THEN mp, OF h0]
  have pos: ?pos using t1 by simp
  have zero: ?zero using t0 by simp
  from pos zero show ?thesis by (rule conjI)
qed

text \<open>
  C6 as stated fails where the model reports the variance 0 at the level 0.95: the scale
  handed to \<open>norm.interval\<close> is 0, and both bounds are \<open>nan\<close>, not the estimate 5.
\<close>

theorem Krige_zero_variance_counterexample:
  "Krige_predict_proba (\<lambda>m xs ys. Inr ([Fin 5], [Fin 0])) float_sqrt
      (scipy_norm_interval (\<lambda>q. if q < 1 / 2 then - (196 / 100) else 196 / 100))
      \<lparr>Krige_args = (), Krige_kwargs = (), Krige_model = Some (), Krige_method = ''ordinary''\<rparr>
      [(0 :: real, 0)] (95 / 100) =
     Inr ([Fin 5], [Fin 0], [NaN], [NaN]) \<and> [NaN] \<noteq> [Fin 5]"
  by (simp add: Krige_predict_proba_def float_sqrt_def scipy_norm_interval_def scipy_ppf_def)

section \<open>Properties of the feature ranking report\<close>









section \<open>Properties of the learning pipeline: no input images\<close>





section \<open>Properties of the learning pipeline: order of iteration\<close>











end
